theory Spec2Isabelle
  imports Complex_Main "HOL-Library.Sublist"
begin

section \<open>JavaScript values\<close>

text \<open>
  A JavaScript number is an IEEE double: not-a-number, one of the two infinities, or a
  finite value. Every finite double is a rational, and the comparison of two finite
  doubles is the comparison of these rationals, so a finite number is modelled by the
  rational it denotes. The two zeros are both \<open>Finite 0\<close>: they compare equal and
  both are falsy, and the program observes nothing else of them.
\<close>

datatype js_number = NaN | NegInfinity | Finite rat | PosInfinity

text \<open>The relational operator \<open>a > b\<close> on numbers: false as soon as one side is NaN.\<close>

fun js_gt :: "js_number \<Rightarrow> js_number \<Rightarrow> bool" where
  "js_gt NaN b = False"
| "js_gt a NaN = False"
| "js_gt NegInfinity b = False"
| "js_gt PosInfinity b = (b \<noteq> PosInfinity)"
| "js_gt (Finite x) NegInfinity = True"
| "js_gt (Finite x) PosInfinity = False"
| "js_gt (Finite x) (Finite y) = (y < x)"

text \<open>
  The values that \<open>JSON.parse\<close> produces, and \<open>undefined\<close>, which reading an absent
  property produces. An object is the list of its own properties, read with \<open>map_of\<close>.
\<close>

datatype js_value =
    JUndefined
  | JNull
  | JBool bool
  | JNumber js_number
  | JString string
  | JArray "js_value list"
  | JObject "(string \<times> js_value) list"

datatype exn =
    SyntaxError
  | TypeError
  | GraphqlQueryError js_value
  | OtherError string

text \<open>
  The built-in functions the two source files call. They belong to the JavaScript
  engine, not to this repository, so they are parameters of the model: every theorem
  below holds for every host.
\<close>

record host =
  JSON_parse :: "string \<Rightarrow> exn + js_value"
  JSON_stringify :: "js_value \<Rightarrow> string"
  parseFloat :: "string \<Rightarrow> js_number"
  StringToNumber :: "string \<Rightarrow> js_number"
  NumberToString :: "js_number \<Rightarrow> string"

text \<open>\<open>!v\<close> is \<open>\<not> truthy v\<close> (the language's ToBoolean).\<close>

fun truthy :: "js_value \<Rightarrow> bool" where
  "truthy JUndefined = False"
| "truthy JNull = False"
| "truthy (JBool b) = b"
| "truthy (JNumber n) = (n \<noteq> NaN \<and> n \<noteq> Finite 0)"
| "truthy (JString s) = (s \<noteq> [])"
| "truthy (JArray xs) = True"
| "truthy (JObject kvs) = True"

text \<open>
  Reading a property \<open>v.k\<close>, for the property names the two source files read (none of
  them is an array index or a member of a built-in prototype other than \<open>length\<close>).
  Reading a property of \<open>undefined\<close> or \<open>null\<close> throws a TypeError.
\<close>

fun get_prop :: "js_value \<Rightarrow> string \<Rightarrow> exn + js_value" where
  "get_prop JUndefined k = Inl TypeError"
| "get_prop JNull k = Inl TypeError"
| "get_prop (JBool b) k = Inr JUndefined"
| "get_prop (JNumber n) k = Inr JUndefined"
| "get_prop (JString s) k =
     Inr (if k = ''length'' then JNumber (Finite (of_nat (length s))) else JUndefined)"
| "get_prop (JArray xs) k =
     Inr (if k = ''length'' then JNumber (Finite (of_nat (length xs))) else JUndefined)"
| "get_prop (JObject kvs) k =
     Inr (case map_of kvs k of None \<Rightarrow> JUndefined | Some v \<Rightarrow> v)"

text \<open>Sequencing of steps that may throw: the first exception ends the sequence.\<close>

definition and_then :: "exn + 'a \<Rightarrow> ('a \<Rightarrow> exn + 'b) \<Rightarrow> exn + 'b" where
  "and_then r f = (case r of Inl e \<Rightarrow> Inl e | Inr x \<Rightarrow> f x)"

text \<open>\<open>Array.prototype.join\<close> on the strings of the elements.\<close>

fun join :: "string \<Rightarrow> string list \<Rightarrow> string" where
  "join sep [] = []"
| "join sep [s] = s"
| "join sep (s # t # ts) = s @ sep @ join sep (t # ts)"

text \<open>
  The language's ToString on a value from JSON. An object is converted by calling its
  \<open>toString\<close>, then its \<open>valueOf\<close>: with the inherited \<open>toString\<close> the result is
  \<open>[object Object]\<close>; an own property \<open>toString\<close> holds a JSON value, which cannot be
  called, the inherited \<open>valueOf\<close> returns the object itself, and the conversion throws a
  TypeError. An array converts as \<open>join(",")\<close> does, element by element: \<open>undefined\<close>
  and \<open>null\<close> give the empty string, and the first element that cannot be converted
  throws.
\<close>

fun to_string :: "host \<Rightarrow> js_value \<Rightarrow> exn + string"
  and to_strings :: "host \<Rightarrow> js_value list \<Rightarrow> exn + string list" where
  "to_string h JUndefined = Inr ''undefined''"
| "to_string h JNull = Inr ''null''"
| "to_string h (JBool b) = Inr (if b then ''true'' else ''false'')"
| "to_string h (JNumber n) = Inr (NumberToString h n)"
| "to_string h (JString s) = Inr s"
| "to_string h (JArray xs) =
     (case to_strings h xs of Inl e \<Rightarrow> Inl e | Inr ss \<Rightarrow> Inr (join '','' ss))"
| "to_string h (JObject kvs) =
     (if map_of kvs ''toString'' = None then Inr ''[object Object]'' else Inl TypeError)"
| "to_strings h [] = Inr []"
| "to_strings h (x # xs) =
     (case (if x = JUndefined \<or> x = JNull then Inr [] else to_string h x) of
        Inl e \<Rightarrow> Inl e
      | Inr s \<Rightarrow> (case to_strings h xs of Inl e \<Rightarrow> Inl e | Inr ss \<Rightarrow> Inr (s # ss)))"

text \<open>
  The language's ToNumber on a value from JSON. An array or object is converted to a
  primitive first, which is its string or the TypeError above (\<open>valueOf\<close>, tried first,
  returns the object itself or cannot be called).
\<close>

fun to_number :: "host \<Rightarrow> js_value \<Rightarrow> exn + js_number" where
  "to_number h JUndefined = Inr NaN"
| "to_number h JNull = Inr (Finite 0)"
| "to_number h (JBool b) = Inr (Finite (if b then 1 else 0))"
| "to_number h (JNumber n) = Inr n"
| "to_number h (JString s) = Inr (StringToNumber h s)"
| "to_number h (JArray xs) =
     and_then (to_string h (JArray xs)) (\<lambda>s. Inr (StringToNumber h s))"
| "to_number h (JObject kvs) =
     and_then (to_string h (JObject kvs)) (\<lambda>s. Inr (StringToNumber h s))"

text \<open>\<open>xs.find(p)\<close> with a test that may throw: the elements are tested in order.\<close>

fun array_find :: "('a \<Rightarrow> exn + bool) \<Rightarrow> 'a list \<Rightarrow> exn + 'a option" where
  "array_find p [] = Inr None"
| "array_find p (x # xs) =
     and_then (p x) (\<lambda>found. if found then Inr (Some x) else array_find p xs)"

text \<open>\<open>t.includes(s)\<close>: \<open>s\<close> occurs in \<open>t\<close> as a contiguous run of characters.\<close>

definition string_includes :: "string \<Rightarrow> string \<Rightarrow> bool" where
  "string_includes t s = sublist s t"

text \<open>\<open>a ?? d\<close>, with \<open>None\<close> for an operand that is \<open>null\<close> or \<open>undefined\<close>.\<close>

definition nullish :: "'a option \<Rightarrow> 'a \<Rightarrow> 'a" where
  "nullish a d = (case a of None \<Rightarrow> d | Some x \<Rightarrow> x)"

section \<open>The payment customization function\<close>

subsection \<open>Input and result\<close>

record metafield =
  metafield_value :: "string option"

record payment_customization =
  metafield :: "metafield option"

record money =
  amount :: "string option"

record cart_cost =
  totalAmount :: money

record cart =
  cost :: cart_cost

record payment_method =
  method_id :: string
  method_name :: string

record input =
  paymentCustomization :: "payment_customization option"
  cart :: cart
  paymentMethods :: "payment_method list"

datatype operation = Move (index: nat) (paymentMethodId: string)

record function_result =
  operations :: "operation list"

text \<open>What one call does: the lines written with \<open>console.error\<close>, and the value returned.\<close>

record outcome =
  console_error :: "string list"
  returned :: function_result

definition NO_CHANGES :: function_result where
  "NO_CHANGES = \<lparr>operations = []\<rparr>"

subsection \<open>The function\<close>

text \<open>\<open>input?.paymentCustomization?.metafield?.value\<close>\<close>

definition metafield_value_of :: "input \<Rightarrow> string option" where
  "metafield_value_of i =
     (case paymentCustomization i of
        None \<Rightarrow> None
      | Some pc \<Rightarrow> (case metafield pc of None \<Rightarrow> None | Some mf \<Rightarrow> metafield_value mf))"

text \<open>The text handed to \<open>JSON.parse\<close>: the metafield value \<open>?? "{}"\<close>.\<close>

definition configuration_text :: "input \<Rightarrow> string" where
  \<open>configuration_text i = nullish (metafield_value_of i) ''{}''\<close>

text \<open>\<open>parseFloat(input.cart.cost.totalAmount.amount ?? "0.0")\<close>\<close>

definition parsed_cart_total :: "host \<Rightarrow> input \<Rightarrow> js_number" where
  "parsed_cart_total h i = parseFloat h (nullish (amount (totalAmount (cost (cart i)))) ''0.0'')"

definition too_high_message :: string where
  "too_high_message = ''Cart total is too high enough, no need to move the payment method.''"

definition default_export :: "host \<Rightarrow> input \<Rightarrow> exn + outcome" where
  "default_export h i =
     (case JSON_parse h (configuration_text i) of
        Inl e \<Rightarrow> Inl e
      | Inr configuration \<Rightarrow>
          (case get_prop configuration ''paymentMethodName'' of
             Inl e \<Rightarrow> Inl e
           | Inr name \<Rightarrow>
               if \<not> truthy name
               then Inr \<lparr>console_error = [], returned = NO_CHANGES\<rparr>
               else
                 (case get_prop configuration ''cartTotal'' of
                    Inl e \<Rightarrow> Inl e
                  | Inr threshold \<Rightarrow>
                      if \<not> truthy threshold
                      then Inr \<lparr>console_error = [], returned = NO_CHANGES\<rparr>
                      else
                        let cartTotal = parsed_cart_total h i in
                          (case to_number h threshold of
                             Inl e \<Rightarrow> Inl e
                           | Inr limit \<Rightarrow>
                               if js_gt cartTotal limit
                               then Inr \<lparr>console_error = [too_high_message],
                                         returned = NO_CHANGES\<rparr>
                               else
                                 (case array_find
                                         (\<lambda>method. and_then (to_string h name)
                                            (\<lambda>s. Inr (string_includes (method_name method) s)))
                                         (paymentMethods i) of
                                    Inl e \<Rightarrow> Inl e
                                  | Inr None \<Rightarrow>
                                      Inr \<lparr>console_error = [], returned = NO_CHANGES\<rparr>
                                  | Inr (Some movePaymentMethod) \<Rightarrow>
                                      Inr \<lparr>console_error = [],
                                           returned = \<lparr>operations =
                                             [Move 0 (method_id movePaymentMethod)]\<rparr>\<rparr>)))))"

text \<open>The input \<open>i\<close> with \<open>cart.cost.totalAmount.amount\<close> replaced by \<open>a\<close>.\<close>

definition with_amount :: "input \<Rightarrow> string option \<Rightarrow> input" where
  "with_amount i a = i\<lparr>cart := \<lparr>cost = \<lparr>totalAmount = \<lparr>amount = a\<rparr>\<rparr>\<rparr>\<rparr>"

section \<open>The admin backend: creating a payment customization\<close>

text \<open>A chain of property reads \<open>v.k1.k2...\<close>, left to right.\<close>

fun get_path :: "js_value \<Rightarrow> string list \<Rightarrow> exn + js_value" where
  "get_path v [] = Inr v"
| "get_path v (k # ks) = and_then (get_prop v k) (\<lambda>w. get_path w ks)"

text \<open>\<open>xs.join(sep)\<close> on an array of values.\<close>

definition array_join :: "host \<Rightarrow> string \<Rightarrow> js_value list \<Rightarrow> exn + string" where
  "array_join h sep xs = and_then (to_strings h xs) (\<lambda>ss. Inr (join sep ss))"

text \<open>
  What \<open>graphqlClient.query\<close> is called with: which of the two mutation documents, and
  its variables. The client belongs to the platform: it is a parameter that answers a
  call with a response object or by throwing.
\<close>

datatype document = PaymentCustomizationCreate | MetafieldsSet

record graphql_data =
  query :: document
  variables :: js_value

type_synonym graphql_client = "graphql_data \<Rightarrow> exn + js_value"

text \<open>\<open>res.status(n).send(b)\<close>; \<open>send()\<close> without an argument has the body \<open>undefined\<close>.\<close>

record http_response =
  status :: nat
  body :: js_value

text \<open>\<open>userErrors.map((error) => error.message)\<close>\<close>

fun error_messages :: "js_value list \<Rightarrow> exn + js_value list" where
  "error_messages [] = Inr []"
| "error_messages (error # rest) =
     and_then (get_prop error ''message'')
       (\<lambda>m. and_then (error_messages rest) (\<lambda>ms. Inr (m # ms)))"

text \<open>
  \<open>handleUserError(userErrors, res)\<close>. The result is \<open>Some r\<close> when the function sends
  the response \<open>r\<close> and returns true, and \<open>None\<close> when it returns false (it sends
  nothing then). Calling \<open>map\<close> on a value that is not an array throws a TypeError.
\<close>

definition handleUserError :: "host \<Rightarrow> js_value \<Rightarrow> exn + http_response option" where
  "handleUserError h userErrors =
     (if \<not> truthy userErrors then Inr None
      else
        and_then (get_prop userErrors ''length'')
          (\<lambda>len.
             and_then (to_number h len)
               (\<lambda>n.
                  if js_gt n (Finite 0)
                  then
                    (case userErrors of
                       JArray errors \<Rightarrow>
                         and_then (error_messages errors)
                           (\<lambda>messages.
                              and_then (array_join h '' '' messages)
                                (\<lambda>message.
                                   Inr (Some \<lparr>status = 500,
                                              body = JObject
                                                [(''error'', JString message)]\<rparr>)))
                     | _ \<Rightarrow> Inl TypeError)
                  else Inr None)))"

text \<open>
  The argument of the first call, built from \<open>payload = req.body\<close>; the template
  literal of the title converts the two values of the payload to strings.
\<close>

definition create_data :: "host \<Rightarrow> js_value \<Rightarrow> exn + graphql_data" where
  "create_data h payload =
     and_then (get_prop payload ''functionId'') (\<lambda>functionId.
     and_then (get_prop payload ''paymentMethod'') (\<lambda>paymentMethod.
     and_then (to_string h paymentMethod) (\<lambda>method.
     and_then (get_prop payload ''cartTotal'') (\<lambda>cartTotal.
     and_then (to_string h cartTotal) (\<lambda>total.
       Inr \<lparr>query = PaymentCustomizationCreate,
            variables = JObject [(''input'', JObject
              [(''functionId'', functionId),
               (''title'', JString (''Move '' @ method
                                     @ '' if cart total is less than '' @ total)),
               (''enabled'', JBool True)])]\<rparr>)))))"

text \<open>The argument of the second call.\<close>

definition metafield_data :: "host \<Rightarrow> js_value \<Rightarrow> js_value \<Rightarrow> exn + graphql_data" where
  "metafield_data h payload createResult =
     and_then (get_path createResult [''paymentCustomization'', ''id'']) (\<lambda>customizationId.
     and_then (get_prop payload ''paymentMethod'') (\<lambda>paymentMethod.
     and_then (get_prop payload ''cartTotal'') (\<lambda>cartTotal.
       Inr \<lparr>query = MetafieldsSet,
            variables = JObject
              [(''customizationId'', customizationId),
               (''configurationValue'', JString (JSON_stringify h (JObject
                  [(''paymentMethodName'', paymentMethod),
                   (''cartTotal'', cartTotal)])))]\<rparr>)))"

text \<open>
  The body of \<open>try\<close>: the calls issued, in order, and how the block ends: with an
  exception, with \<open>Some r\<close> after \<open>handleUserError\<close> sent \<open>r\<close> and the handler
  returned, or with \<open>None\<close> at the end of the block.
\<close>

definition try_block ::
  "host \<Rightarrow> graphql_client \<Rightarrow> js_value \<Rightarrow> graphql_data list \<times> (exn + http_response option)" where
  "try_block h graphqlClient payload =
     (case create_data h payload of
        Inl e \<Rightarrow> ([], Inl e)
      | Inr q1 \<Rightarrow>
          (case and_then (graphqlClient q1) (\<lambda>createResponse.
                  get_path createResponse [''body'', ''data'', ''paymentCustomizationCreate'']) of
             Inl e \<Rightarrow> ([q1], Inl e)
           | Inr createResult \<Rightarrow>
               (case and_then (get_prop createResult ''userErrors'') (handleUserError h) of
                  Inl e \<Rightarrow> ([q1], Inl e)
                | Inr (Some sent) \<Rightarrow> ([q1], Inr (Some sent))
                | Inr None \<Rightarrow>
                    (case metafield_data h payload createResult of
                       Inl e \<Rightarrow> ([q1], Inl e)
                     | Inr q2 \<Rightarrow>
                         (case and_then (graphqlClient q2) (\<lambda>metafieldResponse.
                                 get_path metafieldResponse [''body'', ''data'', ''metafieldsSet'']) of
                            Inl e \<Rightarrow> ([q1, q2], Inl e)
                          | Inr metafieldResult \<Rightarrow>
                              ([q1, q2], handleUserError h metafieldResult))))))"

text \<open>
  The handler of \<open>POST /api/paymentCustomization/create\<close>: \<open>catch\<close> answers a
  \<open>GraphqlQueryError\<close> with status 500 and rethrows every other exception; after the
  block the handler answers 200 with an empty body.
\<close>

definition paymentCustomization_create ::
  "host \<Rightarrow> graphql_client \<Rightarrow> js_value \<Rightarrow> graphql_data list \<times> (exn + http_response)" where
  "paymentCustomization_create h graphqlClient payload =
     (case try_block h graphqlClient payload of
        (issued, Inl (GraphqlQueryError response)) \<Rightarrow>
          (issued, Inr \<lparr>status = 500, body = JObject [(''error'', response)]\<rparr>)
      | (issued, Inl e) \<Rightarrow> (issued, Inl e)
      | (issued, Inr (Some sent)) \<Rightarrow> (issued, Inr sent)
      | (issued, Inr None) \<Rightarrow> (issued, Inr \<lparr>status = 200, body = JUndefined\<rparr>))"

section \<open>Sample data\<close>

definition cod_100 :: string where
  \<open>cod_100 = ''{"paymentMethodName":"COD","cartTotal":100}''\<close>

definition cod_minus_5 :: string where
  \<open>cod_minus_5 = ''{"paymentMethodName":"COD","cartTotal":-5}''\<close>

text \<open>Configurations that are valid JSON and hold an object with a property \<open>toString\<close>.\<close>

definition name_unconvertible :: string where
  \<open>name_unconvertible = ''{"paymentMethodName":{"toString":1},"cartTotal":100}''\<close>

definition total_unconvertible :: string where
  \<open>total_unconvertible = ''{"paymentMethodName":"COD","cartTotal":{"toString":1}}''\<close>

text \<open>
  A host for the closed examples: the built-ins as a table on the arguments the
  examples use. Each entry is what the JavaScript built-in returns on that argument;
  outside the table the entries are placeholders, which no example evaluates.
\<close>

definition table_host :: host where
  "table_host =
     \<lparr>JSON_parse = (\<lambda>s.
        if s = ''{}'' then Inr (JObject [])
        else if s = cod_100 then
          Inr (JObject [(''paymentMethodName'', JString ''COD''),
                        (''cartTotal'', JNumber (Finite 100))])
        else if s = cod_minus_5 then
          Inr (JObject [(''paymentMethodName'', JString ''COD''),
                        (''cartTotal'', JNumber (Finite (- 5)))])
        else if s = name_unconvertible then
          Inr (JObject [(''paymentMethodName'', JObject [(''toString'', JNumber (Finite 1))]),
                        (''cartTotal'', JNumber (Finite 100))])
        else if s = total_unconvertible then
          Inr (JObject [(''paymentMethodName'', JString ''COD''),
                        (''cartTotal'', JObject [(''toString'', JNumber (Finite 1))])])
        else if s = ''null'' then Inr JNull
        else if s = ''not json'' then Inl SyntaxError
        else Inl (OtherError ''not in the table'')),
      JSON_stringify = (\<lambda>v.
        if v = JObject [(''paymentMethodName'', JString ''COD''),
                        (''cartTotal'', JNumber (Finite 100))]
        then cod_100
        else ''not in the table''),
      parseFloat = (\<lambda>s.
        if s = ''0.0'' then Finite 0
        else if s = ''50.00'' then Finite 50
        else if s = ''100.00'' then Finite 100
        else if s = ''150.00'' then Finite 150
        else if s = ''abc'' then NaN
        else NaN),
      StringToNumber = (\<lambda>s. NaN),
      NumberToString = (\<lambda>n. if n = Finite 100 then ''100'' else ''not in the table'')\<rparr>"

text \<open>A function input with the given metafield value, amount and payment methods.\<close>

definition checkout :: "string option \<Rightarrow> string option \<Rightarrow> payment_method list \<Rightarrow> input" where
  "checkout v a ms =
     \<lparr>paymentCustomization = Some \<lparr>metafield = Some \<lparr>metafield_value = v\<rparr>\<rparr>,
      cart = \<lparr>cost = \<lparr>totalAmount = \<lparr>amount = a\<rparr>\<rparr>\<rparr>,
      paymentMethods = ms\<rparr>"

definition three_methods :: "payment_method list" where
  "three_methods =
     [\<lparr>method_id = ''gid://1'', method_name = ''Credit Card''\<rparr>,
      \<lparr>method_id = ''gid://2'', method_name = ''Cash on Delivery (COD)''\<rparr>,
      \<lparr>method_id = ''gid://3'', method_name = ''COD by courier''\<rparr>]"

definition sample_payload :: js_value where
  "sample_payload = JObject
     [(''functionId'', JString ''01HF''),
      (''paymentMethod'', JString ''COD''),
      (''cartTotal'', JNumber (Finite 100))]"

text \<open>The response object of the client around the result of one mutation.\<close>

definition response_of :: "string \<Rightarrow> js_value \<Rightarrow> js_value" where
  "response_of field result = JObject [(''body'', JObject [(''data'', JObject [(field, result)])])]"

definition user_error :: "string \<Rightarrow> js_value" where
  "user_error m = JObject [(''message'', JString m)]"

definition created :: js_value where
  "created = JObject
     [(''paymentCustomization'', JObject [(''id'', JString ''gid://shopify/PaymentCustomization/1'')]),
      (''userErrors'', JArray [])]"

definition create_rejected :: js_value where
  "create_rejected = JObject
     [(''paymentCustomization'', JNull),
      (''userErrors'', JArray [user_error ''Function not found'', user_error ''Title is too long''])]"

definition metafield_rejected :: js_value where
  "metafield_rejected = JObject
     [(''metafields'', JNull),
      (''userErrors'', JArray [user_error ''Value is invalid''])]"

definition metafield_stored :: js_value where
  "metafield_stored = JObject
     [(''metafields'', JArray [JObject [(''id'', JString ''gid://shopify/Metafield/1'')]]),
      (''userErrors'', JArray [])]"

text \<open>A client that answers the two mutations with the two given results.\<close>

definition scripted_client :: "js_value \<Rightarrow> js_value \<Rightarrow> graphql_client" where
  "scripted_client createResult metafieldResult q =
     (case query q of
        PaymentCustomizationCreate \<Rightarrow> Inr (response_of ''paymentCustomizationCreate'' createResult)
      | MetafieldsSet \<Rightarrow> Inr (response_of ''metafieldsSet'' metafieldResult))"

section \<open>Facts about the model\<close>

lemmas sample_defs = table_host_def checkout_def three_methods_def cod_100_def cod_minus_5_def
  configuration_text_def metafield_value_of_def nullish_def parsed_cart_total_def
  string_includes_def sublist_code name_unconvertible_def total_unconvertible_def

lemma string_includes_iff: "string_includes t s \<longleftrightarrow> (\<exists>before after. t = before @ s @ after)"
  by (simp add: string_includes_def sublist_def)

lemma js_gt_irrefl: "\<not> js_gt n n"
  by (cases n) simp_all

lemma find_first_match:
  assumes "\<forall>x\<in>set before. \<not> P x" and "P m"
  shows "find P (before @ m # after) = Some m"
  using assms by (induction before) simp_all

text \<open>A conversion to a string that throws, throws a TypeError.\<close>

lemma to_string_raises_TypeError:
  "to_string h v = Inl e \<Longrightarrow> e = TypeError"
  "to_strings h vs = Inl e \<Longrightarrow> e = TypeError"
  by (induction h v and h vs rule: to_string_to_strings.induct)
    (auto split: sum.splits if_splits)

text \<open>
  An object converts to a string unless it has an own property \<open>toString\<close>; strings,
  numbers and booleans always convert.
\<close>

lemma to_string_object_raises:
  "to_string h (JObject kvs) = Inl e \<longleftrightarrow> e = TypeError \<and> map_of kvs ''toString'' \<noteq> None"
  by auto

lemma to_number_raises:
  "to_number h v = Inl e \<longleftrightarrow> (\<exists>xs. v = JArray xs \<or> (\<exists>kvs. v = JObject kvs)) \<and> to_string h v = Inl e"
  by (cases v) (auto simp: and_then_def split: sum.splits)

lemma and_then_simps:
  "and_then (Inr x) f = f x"
  "and_then (Inl e) f = Inl e"
  by (simp_all add: and_then_def)

text \<open>
  \<open>find\<close> with a test that never throws is the \<open>find\<close> of lists; with a test that always
  throws, the first element throws.
\<close>

lemma array_find_total: "array_find (\<lambda>x. Inr (P x)) xs = Inr (find P xs)"
  by (induction xs) (simp_all add: and_then_simps)

lemma array_find_throws: "array_find (\<lambda>x. Inl e) xs = (if xs = [] then Inr None else Inl e)"
  by (cases xs) (simp_all add: and_then_simps)

text \<open>
  With a configuration that passes the presence check and whose two values convert, the
  function is the threshold comparison followed by the search.
\<close>

lemma default_export_present:
  assumes "JSON_parse h (configuration_text i) = Inr configuration"
    and "get_prop configuration ''paymentMethodName'' = Inr name" and "truthy name"
    and "get_prop configuration ''cartTotal'' = Inr threshold" and "truthy threshold"
    and "to_number h threshold = Inr limit" and "to_string h name = Inr s"
  shows "default_export h i =
           (if js_gt (parsed_cart_total h i) limit
            then Inr \<lparr>console_error = [too_high_message], returned = NO_CHANGES\<rparr>
            else case find (\<lambda>method. string_includes (method_name method) s)
                           (paymentMethods i) of
                   None \<Rightarrow> Inr \<lparr>console_error = [], returned = NO_CHANGES\<rparr>
                 | Some movePaymentMethod \<Rightarrow>
                     Inr \<lparr>console_error = [],
                          returned = \<lparr>operations = [Move 0 (method_id movePaymentMethod)]\<rparr>\<rparr>)"
  using assms by (simp add: default_export_def and_then_simps array_find_total)

text \<open>
  Two inputs with the same configuration text and payment methods, whose cart totals
  compare alike with every threshold the configuration can hold, get the same answer.
\<close>

lemma default_export_cong:
  assumes "configuration_text i = configuration_text j"
    and "paymentMethods i = paymentMethods j"
    and "\<And>c t limit. JSON_parse h (configuration_text i) = Inr c \<Longrightarrow>
           get_prop c ''cartTotal'' = Inr t \<Longrightarrow> to_number h t = Inr limit \<Longrightarrow>
           js_gt (parsed_cart_total h i) limit = js_gt (parsed_cart_total h j) limit"
  shows "default_export h i = default_export h j"
  using assms by (auto simp: default_export_def Let_def split: sum.splits option.splits)

lemma with_amount_simps:
  "configuration_text (with_amount i a) = configuration_text i"
  "paymentMethods (with_amount i a) = paymentMethods i"
  "parsed_cart_total h (with_amount i a) = parseFloat h (nullish a ''0.0'')"
  by (simp_all add: with_amount_def configuration_text_def metafield_value_of_def
      parsed_cart_total_def)

text \<open>
  Under a negative threshold an amount that does not parse and the amount \<open>0.0\<close> part
  ways, for every host: the first reaches the search, the second stops at the threshold.
\<close>

lemma negative_threshold_unparseable_amount:
  assumes "JSON_parse h (configuration_text i) = Inr configuration"
    and "get_prop configuration ''paymentMethodName'' = Inr (JString p)" and "p \<noteq> []"
    and "get_prop configuration ''cartTotal'' = Inr (JNumber t)"
    and "js_gt (Finite 0) t"
    and "parseFloat h s = NaN" and "parseFloat h ''0.0'' = Finite 0"
    and "find (\<lambda>method. string_includes (method_name method) p) (paymentMethods i) = Some m"
  shows "default_export h (with_amount i (Some s)) =
           Inr \<lparr>console_error = [], returned = \<lparr>operations = [Move 0 (method_id m)]\<rparr>\<rparr>"
    and "default_export h (with_amount i (Some ''0.0'')) =
           Inr \<lparr>console_error = [too_high_message], returned = NO_CHANGES\<rparr>"
proof -
  from assms(5) have t: "t \<noteq> NaN" "t \<noteq> Finite 0"
    by auto
  have c: "JSON_parse h (configuration_text (with_amount i a)) = Inr configuration" for a
    using assms(1) by (simp add: with_amount_simps)
  show "default_export h (with_amount i (Some s)) =
           Inr \<lparr>console_error = [], returned = \<lparr>operations = [Move 0 (method_id m)]\<rparr>\<rparr>"
    using assms(2-4,6,8) t
    by (simp add: default_export_present [OF c] with_amount_simps nullish_def)
  show "default_export h (with_amount i (Some ''0.0'')) =
           Inr \<lparr>console_error = [too_high_message], returned = NO_CHANGES\<rparr>"
    using assms(2-5,7) t
    by (simp add: default_export_present [OF c] with_amount_simps nullish_def)
qed

section \<open>The decision function\<close>

text \<open>
  Claim C1. The configuration is present (\<open>paymentMethodName\<close> a non-empty string,
  \<open>cartTotal\<close> a number other than zero), the parsed cart total does not exceed the
  threshold, and some payment method's name contains the configured name. Then the
  function returns exactly one operation, the move to index 0 of the first such method
  in the order of the input: the methods before it do not match, and whatever comes after
  it, matching or not, is ignored.
\<close>

theorem first_match_is_moved:
  assumes "JSON_parse h (configuration_text i) = Inr configuration"
    and "get_prop configuration ''paymentMethodName'' = Inr (JString p)" and "p \<noteq> []"
    and "get_prop configuration ''cartTotal'' = Inr (JNumber t)"
    and "t \<noteq> Finite 0" and "t \<noteq> NaN"
    and "\<not> js_gt (parsed_cart_total h i) t"
    and "paymentMethods i = before @ m # after"
    and "\<forall>x\<in>set before. \<not> string_includes (method_name x) p"
    and "string_includes (method_name m) p"
  shows "default_export h i =
           Inr \<lparr>console_error = [],
                returned = \<lparr>operations = [Move 0 (method_id m)]\<rparr>\<rparr>"
proof -
  have "find (\<lambda>method. string_includes (method_name method) p) (paymentMethods i) = Some m"
    using assms(8-10) by (simp add: find_first_match)
  then show ?thesis
    using assms(1-7) by (simp add: default_export_present)
qed

text \<open>
  Scenario A of the specification, with a third method that matches too: threshold 100,
  total 50.00, and the second of three methods is the first whose name contains COD.
\<close>

theorem first_match_is_moved_witness:
  "default_export table_host (checkout (Some cod_100) (Some ''50.00'') three_methods) =
     Inr \<lparr>console_error = [], returned = \<lparr>operations = [Move 0 ''gid://2'']\<rparr>\<rparr>"
proof -
  let ?i = "checkout (Some cod_100) (Some ''50.00'') three_methods"
  let ?c = "JObject [(''paymentMethodName'', JString ''COD''),
                     (''cartTotal'', JNumber (Finite 100))]"
  let ?m = "\<lparr>method_id = ''gid://2'', method_name = ''Cash on Delivery (COD)''\<rparr>"
  have "default_export table_host ?i =
          Inr \<lparr>console_error = [], returned = \<lparr>operations = [Move 0 (method_id ?m)]\<rparr>\<rparr>"
  proof (rule first_match_is_moved
      [where configuration = ?c and p = "''COD''" and t = "Finite 100"
         and before = "[\<lparr>method_id = ''gid://1'', method_name = ''Credit Card''\<rparr>]"
         and after = "[\<lparr>method_id = ''gid://3'', method_name = ''COD by courier''\<rparr>]"])
    show "JSON_parse table_host (configuration_text ?i) = Inr ?c"
      by (simp add: sample_defs)
    show "\<not> js_gt (parsed_cart_total table_host ?i) (Finite 100)"
      by (simp add: sample_defs)
    show "paymentMethods ?i =
            [\<lparr>method_id = ''gid://1'', method_name = ''Credit Card''\<rparr>] @ ?m #
            [\<lparr>method_id = ''gid://3'', method_name = ''COD by courier''\<rparr>]"
      by (simp add: sample_defs)
    show "\<forall>x\<in>set [\<lparr>method_id = ''gid://1'', method_name = ''Credit Card''\<rparr>].
            \<not> string_includes (method_name x) ''COD''"
      by (simp add: sample_defs)
    show "string_includes (method_name ?m) ''COD''"
      by (simp add: sample_defs)
  qed simp_all
  then show ?thesis by simp
qed

text \<open>
  Claim C2. The configuration is present and the parsed cart total is strictly greater
  than \<open>configuration.cartTotal\<close>. Then the function returns the empty operations list,
  whatever the payment methods are, after writing its diagnostic line.
\<close>

theorem above_threshold_no_operations:
  assumes "JSON_parse h (configuration_text i) = Inr configuration"
    and "get_prop configuration ''paymentMethodName'' = Inr (JString p)" and "p \<noteq> []"
    and "get_prop configuration ''cartTotal'' = Inr (JNumber t)"
    and "t \<noteq> Finite 0" and "t \<noteq> NaN"
    and "js_gt (parsed_cart_total h i) t"
  shows "default_export h i =
           Inr \<lparr>console_error = [too_high_message], returned = NO_CHANGES\<rparr>"
  using assms by (simp add: default_export_present)

text \<open>Scenario B of the specification: threshold 100, total 150.00.\<close>

theorem above_threshold_no_operations_witness:
  "default_export table_host (checkout (Some cod_100) (Some ''150.00'') three_methods) =
     Inr \<lparr>console_error = [too_high_message], returned = \<lparr>operations = []\<rparr>\<rparr>"
proof -
  let ?i = "checkout (Some cod_100) (Some ''150.00'') three_methods"
  let ?c = "JObject [(''paymentMethodName'', JString ''COD''),
                     (''cartTotal'', JNumber (Finite 100))]"
  have "default_export table_host ?i =
          Inr \<lparr>console_error = [too_high_message], returned = NO_CHANGES\<rparr>"
  proof (rule above_threshold_no_operations
      [where configuration = ?c and p = "''COD''" and t = "Finite 100"])
    show "JSON_parse table_host (configuration_text ?i) = Inr ?c"
      by (simp add: sample_defs)
    show "js_gt (parsed_cart_total table_host ?i) (Finite 100)"
      by (simp add: sample_defs)
  qed simp_all
  then show ?thesis by (simp add: NO_CHANGES_def)
qed

text \<open>
  Claim C3. The configuration is present, the parsed cart total is exactly
  \<open>configuration.cartTotal\<close>, and some payment method matches. Then the result is the
  move of a matching method: the comparison is strict, so equality does not stop the move.
\<close>

theorem equal_to_threshold_still_moves:
  assumes "JSON_parse h (configuration_text i) = Inr configuration"
    and "get_prop configuration ''paymentMethodName'' = Inr (JString p)" and "p \<noteq> []"
    and "get_prop configuration ''cartTotal'' = Inr (JNumber t)"
    and "t \<noteq> Finite 0" and "t \<noteq> NaN"
    and "parsed_cart_total h i = t"
    and "\<exists>m\<in>set (paymentMethods i). string_includes (method_name m) p"
  shows "\<exists>m\<in>set (paymentMethods i). string_includes (method_name m) p \<and>
           default_export h i =
             Inr \<lparr>console_error = [],
                  returned = \<lparr>operations = [Move 0 (method_id m)]\<rparr>\<rparr>"
proof -
  let ?P = "\<lambda>method. string_includes (method_name method) p"
  from assms(8) obtain m where m: "find ?P (paymentMethods i) = Some m"
    by (cases "find ?P (paymentMethods i)") (auto simp: find_None_iff)
  then have "m \<in> set (paymentMethods i)" and "?P m"
    by (auto simp: find_Some_iff)
  moreover have "default_export h i =
      Inr \<lparr>console_error = [], returned = \<lparr>operations = [Move 0 (method_id m)]\<rparr>\<rparr>"
    using assms(1-7) m by (simp add: default_export_present js_gt_irrefl)
  ultimately show ?thesis by blast
qed

text \<open>Scenario D of the specification: threshold 100, total 100.00.\<close>

theorem equal_to_threshold_still_moves_witness:
  "\<exists>m\<in>set three_methods. string_includes (method_name m) ''COD'' \<and>
     default_export table_host (checkout (Some cod_100) (Some ''100.00'') three_methods) =
       Inr \<lparr>console_error = [], returned = \<lparr>operations = [Move 0 (method_id m)]\<rparr>\<rparr>"
proof -
  let ?i = "checkout (Some cod_100) (Some ''100.00'') three_methods"
  let ?c = "JObject [(''paymentMethodName'', JString ''COD''),
                     (''cartTotal'', JNumber (Finite 100))]"
  have "\<exists>m\<in>set (paymentMethods ?i). string_includes (method_name m) ''COD'' \<and>
     default_export table_host ?i =
       Inr \<lparr>console_error = [], returned = \<lparr>operations = [Move 0 (method_id m)]\<rparr>\<rparr>"
  proof (rule equal_to_threshold_still_moves [where configuration = ?c and t = "Finite 100"])
    show "JSON_parse table_host (configuration_text ?i) = Inr ?c"
      by (simp add: sample_defs)
    show "parsed_cart_total table_host ?i = Finite 100"
      by (simp add: sample_defs)
    show "\<exists>m\<in>set (paymentMethods ?i). string_includes (method_name m) ''COD''"
      by (simp add: sample_defs)
  qed simp_all
  then show ?thesis by (simp add: checkout_def)
qed

text \<open>
  Claim C4. The parsed configuration has a falsy \<open>paymentMethodName\<close> (absent, empty,
  \<open>null\<close>, \<open>false\<close>, zero) or a falsy \<open>cartTotal\<close>. Then the function returns the empty
  operations list without looking at the cart total or the payment methods, and writes
  no diagnostic.
\<close>

theorem absent_configuration_no_operations:
  assumes "JSON_parse h (configuration_text i) = Inr configuration"
    and "get_prop configuration ''paymentMethodName'' = Inr name"
    and "get_prop configuration ''cartTotal'' = Inr threshold"
    and "\<not> truthy name \<or> \<not> truthy threshold"
  shows "default_export h i = Inr \<lparr>console_error = [], returned = NO_CHANGES\<rparr>"
  using assms by (auto simp: default_export_def)

text \<open>Scenario C of the specification: the metafield value \<open>{}\<close>.\<close>

theorem absent_configuration_no_operations_witness:
  "default_export table_host (checkout (Some ''{}'') (Some ''50.00'') three_methods) =
     Inr \<lparr>console_error = [], returned = \<lparr>operations = []\<rparr>\<rparr>"
proof -
  let ?i = "checkout (Some ''{}'') (Some ''50.00'') three_methods"
  have "default_export table_host ?i = Inr \<lparr>console_error = [], returned = NO_CHANGES\<rparr>"
  proof (rule absent_configuration_no_operations
      [where configuration = "JObject []" and name = JUndefined and threshold = JUndefined])
    show "JSON_parse table_host (configuration_text ?i) = Inr (JObject [])"
      by (simp add: sample_defs)
  qed simp_all
  then show ?thesis by (simp add: NO_CHANGES_def)
qed

text \<open>
  Claim C5. The configuration is present, the parsed cart total does not exceed the
  threshold, and no payment method's name contains the configured name (the test
  distinguishes upper and lower case). Then the function returns the empty operations
  list.
\<close>

theorem no_match_no_operations:
  assumes "JSON_parse h (configuration_text i) = Inr configuration"
    and "get_prop configuration ''paymentMethodName'' = Inr (JString p)" and "p \<noteq> []"
    and "get_prop configuration ''cartTotal'' = Inr (JNumber t)"
    and "t \<noteq> Finite 0" and "t \<noteq> NaN"
    and "\<not> js_gt (parsed_cart_total h i) t"
    and "\<forall>m\<in>set (paymentMethods i). \<not> string_includes (method_name m) p"
  shows "default_export h i = Inr \<lparr>console_error = [], returned = NO_CHANGES\<rparr>"
proof -
  have "find (\<lambda>method. string_includes (method_name method) p) (paymentMethods i) = None"
    using assms(8) by (simp add: find_None_iff)
  then show ?thesis
    using assms(1-7) by (simp add: default_export_present)
qed

text \<open>A method named \<open>cod\<close> in lower case does not match the configured \<open>COD\<close>.\<close>

theorem no_match_no_operations_witness:
  "default_export table_host (checkout (Some cod_100) (Some ''50.00'')
      [\<lparr>method_id = ''gid://1'', method_name = ''Credit Card''\<rparr>,
       \<lparr>method_id = ''gid://4'', method_name = ''cod''\<rparr>]) =
     Inr \<lparr>console_error = [], returned = \<lparr>operations = []\<rparr>\<rparr>"
proof -
  let ?ms = "[\<lparr>method_id = ''gid://1'', method_name = ''Credit Card''\<rparr>,
       \<lparr>method_id = ''gid://4'', method_name = ''cod''\<rparr>]"
  let ?i = "checkout (Some cod_100) (Some ''50.00'') ?ms"
  let ?c = "JObject [(''paymentMethodName'', JString ''COD''),
                     (''cartTotal'', JNumber (Finite 100))]"
  have "default_export table_host ?i = Inr \<lparr>console_error = [], returned = NO_CHANGES\<rparr>"
  proof (rule no_match_no_operations
      [where configuration = ?c and p = "''COD''" and t = "Finite 100"])
    show "JSON_parse table_host (configuration_text ?i) = Inr ?c"
      by (simp add: sample_defs)
    show "\<not> js_gt (parsed_cart_total table_host ?i) (Finite 100)"
      by (simp add: sample_defs)
    show "\<forall>m\<in>set (paymentMethods ?i). \<not> string_includes (method_name m) ''COD''"
      by (simp add: sample_defs)
  qed simp_all
  then show ?thesis by (simp add: NO_CHANGES_def)
qed

text \<open>
  Claim C6 says that the function never raises. It does: \<open>JSON.parse\<close> is called
  outside any \<open>try\<close>, so on a metafield value that is not JSON its SyntaxError leaves the
  function.
\<close>

theorem malformed_json_raises:
  "default_export table_host (checkout (Some ''not json'') (Some ''50.00'') three_methods) =
     Inl SyntaxError"
  by (simp add: default_export_def sample_defs)

text \<open>
  A configuration that is valid JSON can make the function throw as well: an object with
  an own property \<open>toString\<close> cannot be converted, so as \<open>cartTotal\<close> it makes the
  comparison throw, and as \<open>paymentMethodName\<close> it makes \<open>includes\<close> throw.
\<close>

lemma unconvertible_configuration_raises:
  "default_export table_host (checkout (Some total_unconvertible) (Some ''50.00'') three_methods) =
     Inl TypeError"
  "default_export table_host (checkout (Some name_unconvertible) (Some ''50.00'') three_methods) =
     Inl TypeError"
  "default_export table_host (checkout (Some name_unconvertible) (Some ''50.00'') []) =
     Inr \<lparr>console_error = [], returned = \<lparr>operations = []\<rparr>\<rparr>"
  by (simp_all add: default_export_def sample_defs NO_CHANGES_def and_then_def
      name_unconvertible_def total_unconvertible_def)

text \<open>
  Claim C6, amended. The function raises in exactly these cases. \<open>JSON.parse\<close> raises on
  the metafield value: that exception leaves the function. The value parses to \<open>null\<close>:
  reading \<open>paymentMethodName\<close> raises a TypeError. The configuration passes the presence
  check and its \<open>cartTotal\<close> cannot be converted to a number: the comparison raises that
  TypeError. The configuration passes the presence check, the cart total does not exceed
  the threshold, there is a payment method, and \<open>paymentMethodName\<close> cannot be converted
  to a string: \<open>includes\<close> raises that TypeError. On every other input the function
  returns, and whenever it returns, the result is the empty operations list or the single
  move to index 0 of a payment method of the input.
\<close>

theorem raises_exactly_at_configuration:
  "(default_export h i = Inl e \<longleftrightarrow>
      JSON_parse h (configuration_text i) = Inl e \<or>
      e = TypeError \<and> (JSON_parse h (configuration_text i) = Inr JNull \<or>
                      JSON_parse h (configuration_text i) = Inr JUndefined) \<or>
      (\<exists>c name threshold.
         JSON_parse h (configuration_text i) = Inr c \<and>
         get_prop c ''paymentMethodName'' = Inr name \<and> truthy name \<and>
         get_prop c ''cartTotal'' = Inr threshold \<and> truthy threshold \<and>
         (to_number h threshold = Inl e \<or>
          (\<exists>limit. to_number h threshold = Inr limit \<and>
             \<not> js_gt (parsed_cart_total h i) limit \<and>
             paymentMethods i \<noteq> [] \<and> to_string h name = Inl e)))) \<and>
   (\<forall>out. default_export h i = Inr out \<longrightarrow>
      returned out = NO_CHANGES \<or>
      (\<exists>m\<in>set (paymentMethods i).
         returned out = \<lparr>operations = [Move 0 (method_id m)]\<rparr>))"
proof (cases "JSON_parse h (configuration_text i)")
  case (Inl x)
  then show ?thesis by (simp add: default_export_def)
next
  case (Inr c)
  show ?thesis
  proof (cases "get_prop c ''paymentMethodName''")
    case (Inl x)
    with Inr show ?thesis
      by (cases c) (auto simp: default_export_def)
  next
    case name: (Inr name)
    then obtain threshold where threshold: "get_prop c ''cartTotal'' = Inr threshold"
      by (cases c) simp_all
    from name have c: "c \<noteq> JNull" "c \<noteq> JUndefined"
      by auto
    show ?thesis
    proof (cases "truthy name \<and> truthy threshold")
      case False
      with Inr name threshold c show ?thesis
        by (auto simp: default_export_def)
    next
      case present: True
      show ?thesis
      proof (cases "to_number h threshold")
        case (Inl x)
        with Inr name threshold c present show ?thesis
          by (auto simp: default_export_def)
      next
        case limit: (Inr limit)
        show ?thesis
        proof (cases "js_gt (parsed_cart_total h i) limit")
          case True
          with Inr name threshold c present limit show ?thesis
            by (auto simp: default_export_def)
        next
          case below: False
          show ?thesis
          proof (cases "to_string h name")
            case (Inl x)
            with Inr name threshold c present limit below show ?thesis
              by (auto simp: default_export_def and_then_simps array_find_throws)
          next
            case s: (Inr s)
            let ?P = "\<lambda>method. string_includes (method_name method) s"
            show ?thesis
            proof (cases "find ?P (paymentMethods i)")
              case None
              with Inr name threshold c present limit below s show ?thesis
                by (auto simp: default_export_def and_then_simps array_find_total)
            next
              case (Some m)
              then have "m \<in> set (paymentMethods i)"
                by (auto simp: find_Some_iff)
              with Some Inr name threshold c present limit below s show ?thesis
                by (auto simp: default_export_def and_then_simps array_find_total)
            qed
          qed
        qed
      qed
    qed
  qed
qed

text \<open>
  A metafield value \<open>null\<close> raises the TypeError, and Scenario A returns a single move of
  one of its payment methods.
\<close>

theorem raises_exactly_at_configuration_witness:
  "default_export table_host (checkout (Some ''null'') (Some ''50.00'') three_methods) =
     Inl TypeError \<and>
   (\<exists>m\<in>set three_methods.
      default_export table_host (checkout (Some cod_100) (Some ''50.00'') three_methods) =
        Inr \<lparr>console_error = [], returned = \<lparr>operations = [Move 0 (method_id m)]\<rparr>\<rparr>)"
proof
  let ?i = "checkout (Some ''null'') (Some ''50.00'') three_methods"
  have "JSON_parse table_host (configuration_text ?i) = Inr JNull"
    by (simp add: sample_defs)
  then show "default_export table_host ?i = Inl TypeError"
    using raises_exactly_at_configuration [of table_host ?i TypeError] by blast
next
  let ?j = "checkout (Some cod_100) (Some ''50.00'') three_methods"
  let ?out = "\<lparr>console_error = [], returned = \<lparr>operations = [Move 0 ''gid://2'']\<rparr>\<rparr>"
  have out: "default_export table_host ?j = Inr ?out"
    by (simp add: default_export_def sample_defs and_then_def)
  have "returned ?out = NO_CHANGES \<or>
        (\<exists>m\<in>set (paymentMethods ?j). returned ?out = \<lparr>operations = [Move 0 (method_id m)]\<rparr>)"
    using raises_exactly_at_configuration [of table_host ?j TypeError] out by blast
  then have "\<exists>m\<in>set three_methods. ''gid://2'' = method_id m"
    by (simp add: NO_CHANGES_def checkout_def)
  with out show "\<exists>m\<in>set three_methods. default_export table_host ?j =
      Inr \<lparr>console_error = [], returned = \<lparr>operations = [Move 0 (method_id m)]\<rparr>\<rparr>"
    by auto
qed

text \<open>
  Claim C7 says that an amount that does not parse as a number behaves as the amount
  \<open>0.0\<close> does, for every configuration. With the threshold -5 it does not: \<open>abc\<close> parses
  to NaN, which exceeds nothing, and the payment method is moved; \<open>0.0\<close> exceeds -5 and
  nothing is moved.
\<close>

theorem unparseable_amount_differs_from_zero:
  "parseFloat table_host ''abc'' = NaN \<and>
   default_export table_host (checkout (Some cod_minus_5) (Some ''abc'') three_methods) =
     Inr \<lparr>console_error = [], returned = \<lparr>operations = [Move 0 ''gid://2'']\<rparr>\<rparr> \<and>
   default_export table_host (checkout (Some cod_minus_5) (Some ''0.0'') three_methods) =
     Inr \<lparr>console_error = [too_high_message], returned = \<lparr>operations = []\<rparr>\<rparr>"
  by (simp add: default_export_def sample_defs NO_CHANGES_def and_then_def)

text \<open>
  Claim C7, amended. The default \<open>0.0\<close> stands in for a missing amount only: a missing
  amount behaves as the amount \<open>0.0\<close> does, for every configuration. An amount that does
  not parse gives the cart total NaN, and it behaves as the amount \<open>0.0\<close> does whenever
  zero does not exceed the configured threshold, that is, for every configuration but
  those with a negative \<open>cartTotal\<close>.
\<close>

theorem missing_amount_defaults_unparseable_is_NaN:
  "default_export h (with_amount i None) = default_export h (with_amount i (Some ''0.0'')) \<and>
   (parseFloat h s = NaN \<longrightarrow>
      parsed_cart_total h (with_amount i (Some s)) = NaN \<and>
      (parseFloat h ''0.0'' = Finite 0 \<and>
       (\<forall>c t limit. JSON_parse h (configuration_text i) = Inr c \<and>
              get_prop c ''cartTotal'' = Inr t \<and> to_number h t = Inr limit
              \<longrightarrow> \<not> js_gt (Finite 0) limit) \<longrightarrow>
       default_export h (with_amount i (Some s)) =
         default_export h (with_amount i (Some ''0.0''))))"
proof (intro conjI impI)
  show "default_export h (with_amount i None) = default_export h (with_amount i (Some ''0.0''))"
    by (rule default_export_cong) (simp_all add: with_amount_simps nullish_def)
next
  assume "parseFloat h s = NaN"
  then show "parsed_cart_total h (with_amount i (Some s)) = NaN"
    by (simp add: with_amount_simps nullish_def)
next
  assume nan: "parseFloat h s = NaN"
    and rest: "parseFloat h ''0.0'' = Finite 0 \<and>
      (\<forall>c t limit. JSON_parse h (configuration_text i) = Inr c \<and>
             get_prop c ''cartTotal'' = Inr t \<and> to_number h t = Inr limit
             \<longrightarrow> \<not> js_gt (Finite 0) limit)"
  show "default_export h (with_amount i (Some s)) =
          default_export h (with_amount i (Some ''0.0''))"
  proof (rule default_export_cong)
    fix c t limit
    assume "JSON_parse h (configuration_text (with_amount i (Some s))) = Inr c"
      and "get_prop c ''cartTotal'' = Inr t" and "to_number h t = Inr limit"
    with rest have "\<not> js_gt (Finite 0) limit"
      by (auto simp: with_amount_simps)
    with nan rest
    show "js_gt (parsed_cart_total h (with_amount i (Some s))) limit =
          js_gt (parsed_cart_total h (with_amount i (Some ''0.0''))) limit"
      by (simp add: with_amount_simps nullish_def)
  qed (simp_all add: with_amount_simps)
qed

text \<open>With the threshold 100 the amounts \<open>abc\<close> and \<open>0.0\<close> get the same answer.\<close>

theorem missing_amount_defaults_unparseable_is_NaN_witness:
  "default_export table_host
     (with_amount (checkout (Some cod_100) None three_methods) (Some ''abc'')) =
   default_export table_host
     (with_amount (checkout (Some cod_100) None three_methods) (Some ''0.0''))"
proof -
  let ?i = "checkout (Some cod_100) None three_methods"
  have "parseFloat table_host ''abc'' = NaN"
    by (simp add: table_host_def)
  moreover have "parseFloat table_host ''0.0'' = Finite 0"
    by (simp add: table_host_def)
  moreover have "\<forall>c t limit. JSON_parse table_host (configuration_text ?i) = Inr c \<and>
      get_prop c ''cartTotal'' = Inr t \<and> to_number table_host t = Inr limit
      \<longrightarrow> \<not> js_gt (Finite 0) limit"
    by (auto simp: sample_defs)
  ultimately show ?thesis
    using missing_amount_defaults_unparseable_is_NaN [of table_host ?i "''abc''"]
    by blast
qed

text \<open>
  Claim C10. A configuration with a non-empty \<open>paymentMethodName\<close> and a negative
  \<open>cartTotal\<close> (zero exceeds it) passes the presence check, since a negative number is
  truthy. The function goes on to the threshold comparison, and for every cart total
  that parses to a non-negative number (a number that zero does not exceed) the total
  exceeds the threshold: the function writes its diagnostic and returns the empty
  operations list.
\<close>

theorem negative_threshold_is_present:
  assumes "JSON_parse h (configuration_text i) = Inr configuration"
    and "get_prop configuration ''paymentMethodName'' = Inr (JString p)" and "p \<noteq> []"
    and "get_prop configuration ''cartTotal'' = Inr (JNumber t)"
    and "js_gt (Finite 0) t"
    and "parsed_cart_total h i \<noteq> NaN" and "\<not> js_gt (Finite 0) (parsed_cart_total h i)"
  shows "truthy (JNumber t) \<and>
         default_export h i =
           Inr \<lparr>console_error = [too_high_message], returned = NO_CHANGES\<rparr>"
proof -
  from assms(5) have t: "t \<noteq> NaN" "t \<noteq> Finite 0"
    by auto
  from assms(5-7) have "js_gt (parsed_cart_total h i) t"
    by (cases "parsed_cart_total h i"; cases t) auto
  with assms(1-4) t show ?thesis
    by (simp add: default_export_present)
qed

text \<open>Threshold -5 and total 50.00.\<close>

theorem negative_threshold_is_present_witness:
  "default_export table_host (checkout (Some cod_minus_5) (Some ''50.00'') three_methods) =
     Inr \<lparr>console_error = [too_high_message], returned = \<lparr>operations = []\<rparr>\<rparr>"
proof -
  let ?i = "checkout (Some cod_minus_5) (Some ''50.00'') three_methods"
  let ?c = "JObject [(''paymentMethodName'', JString ''COD''),
                     (''cartTotal'', JNumber (Finite (- 5)))]"
  have "truthy (JNumber (Finite (- 5))) \<and>
        default_export table_host ?i =
          Inr \<lparr>console_error = [too_high_message], returned = NO_CHANGES\<rparr>"
  proof (rule negative_threshold_is_present [where configuration = ?c and p = "''COD''"])
    show "JSON_parse table_host (configuration_text ?i) = Inr ?c"
      by (simp add: sample_defs)
    show "parsed_cart_total table_host ?i \<noteq> NaN"
      by (simp add: sample_defs)
    show "\<not> js_gt (Finite 0) (parsed_cart_total table_host ?i)"
      by (simp add: sample_defs)
  qed simp_all
  then show ?thesis by (simp add: NO_CHANGES_def)
qed

section \<open>The admin backend\<close>

lemmas web_defs = paymentCustomization_create_def try_block_def create_data_def
  metafield_data_def handleUserError_def and_then_def array_join_def
  scripted_client_def response_of_def sample_payload_def created_def create_rejected_def
  metafield_rejected_def metafield_stored_def user_error_def table_host_def

text \<open>On a non-empty array \<open>handleUserError\<close> sends the joined messages with status 500.\<close>

lemma handleUserError_nonempty_array:
  assumes "errors \<noteq> []"
  shows "handleUserError h (JArray errors) =
           and_then (error_messages errors)
             (\<lambda>messages. and_then (array_join h '' '' messages)
                (\<lambda>message. Inr (Some \<lparr>status = 500,
                   body = JObject [(''error'', JString message)]\<rparr>)))"
  using assms by (simp add: handleUserError_def and_then_def)

text \<open>
  On an object without a property \<open>length\<close>, such as the whole result of a mutation,
  \<open>handleUserError\<close> returns false, whatever the object holds.
\<close>

lemma handleUserError_no_length:
  assumes "map_of kvs ''length'' = None"
  shows "handleUserError h (JObject kvs) = Inr None"
  using assms by (simp add: handleUserError_def and_then_def)

lemma query_create_data:
  "create_data h payload = Inr q \<Longrightarrow> query q = PaymentCustomizationCreate"
  by (auto simp: create_data_def and_then_def split: sum.splits)

lemma try_block_create_errors:
  assumes "create_data h payload = Inr q"
    and "graphqlClient q = Inr createResponse"
    and "get_path createResponse [''body'', ''data'', ''paymentCustomizationCreate''] =
           Inr createResult"
    and "get_prop createResult ''userErrors'' = Inr (JArray errors)" and "errors \<noteq> []"
  shows "try_block h graphqlClient payload =
           ([q], and_then (error_messages errors)
             (\<lambda>messages. and_then (array_join h '' '' messages)
                (\<lambda>message. Inr (Some \<lparr>status = 500,
                   body = JObject [(''error'', JString message)]\<rparr>))))"
proof -
  have "and_then (graphqlClient q) (\<lambda>createResponse.
          get_path createResponse [''body'', ''data'', ''paymentCustomizationCreate'']) =
        Inr createResult"
    using assms(2,3) by (simp add: and_then_def)
  moreover have "and_then (get_prop createResult ''userErrors'') (handleUserError h) =
      and_then (error_messages errors)
             (\<lambda>messages. and_then (array_join h '' '' messages)
                (\<lambda>message. Inr (Some \<lparr>status = 500,
                   body = JObject [(''error'', JString message)]\<rparr>)))"
    using assms(4,5) by (simp add: and_then_def handleUserError_nonempty_array)
  ultimately show ?thesis
    using assms(1) by (simp add: try_block_def and_then_def split: sum.splits)
qed

text \<open>
  User errors of the first mutation are answered with status 500 and the messages joined
  by single spaces.
\<close>

lemma create_errors_respond_500:
  assumes "create_data h payload = Inr q"
    and "graphqlClient q = Inr createResponse"
    and "get_path createResponse [''body'', ''data'', ''paymentCustomizationCreate''] =
           Inr createResult"
    and "get_prop createResult ''userErrors'' = Inr (JArray errors)" and "errors \<noteq> []"
    and "error_messages errors = Inr messages"
    and "array_join h '' '' messages = Inr message"
  shows "snd (paymentCustomization_create h graphqlClient payload) =
           Inr \<lparr>status = 500, body = JObject [(''error'', JString message)]\<rparr>"
proof -
  have "try_block h graphqlClient payload =
          ([q], and_then (error_messages errors)
             (\<lambda>messages. and_then (array_join h '' '' messages)
                (\<lambda>message. Inr (Some \<lparr>status = 500,
                   body = JObject [(''error'', JString message)]\<rparr>))))"
    by (rule try_block_create_errors [where createResponse = createResponse]) (fact assms)+
  with assms(6,7) show ?thesis
    by (simp add: paymentCustomization_create_def and_then_def)
qed

lemma handleUserError_empty_array: "handleUserError h (JArray []) = Inr None"
  by (simp add: handleUserError_def and_then_def)

text \<open>
  When the first mutation reports no user error and the second returns an object, the
  handler answers 200 whatever that object holds under \<open>userErrors\<close>.
\<close>

lemma metafield_result_not_inspected:
  assumes "create_data h payload = Inr createQuery"
    and "graphqlClient createQuery = Inr createResponse"
    and "get_path createResponse [''body'', ''data'', ''paymentCustomizationCreate''] =
           Inr createResult"
    and "get_prop createResult ''userErrors'' = Inr (JArray [])"
    and "metafield_data h payload createResult = Inr metafieldQuery"
    and "graphqlClient metafieldQuery = Inr metafieldResponse"
    and "get_path metafieldResponse [''body'', ''data'', ''metafieldsSet''] = Inr (JObject kvs)"
    and "map_of kvs ''length'' = None"
  shows "paymentCustomization_create h graphqlClient payload =
           ([createQuery, metafieldQuery], Inr \<lparr>status = 200, body = JUndefined\<rparr>)"
proof -
  have "and_then (graphqlClient createQuery) (\<lambda>createResponse.
          get_path createResponse [''body'', ''data'', ''paymentCustomizationCreate'']) =
        Inr createResult"
    using assms(2,3) by (simp add: and_then_def)
  moreover have "and_then (get_prop createResult ''userErrors'') (handleUserError h) = Inr None"
    using assms(4) by (simp add: and_then_def handleUserError_empty_array)
  moreover have "and_then (graphqlClient metafieldQuery) (\<lambda>metafieldResponse.
          get_path metafieldResponse [''body'', ''data'', ''metafieldsSet'']) =
        Inr (JObject kvs)"
    using assms(6,7) by (simp add: and_then_def)
  moreover have "handleUserError h (JObject kvs) = Inr None"
    using assms(8) by (rule handleUserError_no_length)
  ultimately have "try_block h graphqlClient payload = ([createQuery, metafieldQuery], Inr None)"
    using assms(1,5) by (simp add: try_block_def)
  then show ?thesis
    by (simp add: paymentCustomization_create_def)
qed

text \<open>
  Claim C8 says that user errors of either mutation are answered with status 500 and
  never with 200. For the second mutation the handler passes the whole result of
  \<open>metafieldsSet\<close> to \<open>handleUserError\<close>, not its \<open>userErrors\<close>: the result has no
  \<open>length\<close>, the test fails, and the handler answers 200 with an empty body although the
  mutation returned a user error.
\<close>

theorem metafield_errors_answered_200:
  "get_prop metafield_rejected ''userErrors'' = Inr (JArray [user_error ''Value is invalid'']) \<and>
   snd (paymentCustomization_create table_host (scripted_client created metafield_rejected)
          sample_payload) =
     Inr \<lparr>status = 200, body = JUndefined\<rparr>"
  by (simp add: web_defs)

text \<open>
  Claim C9. When the result of the first mutation, \<open>paymentCustomizationCreate\<close>, holds a
  non-empty list of user errors, the handler issues that one call and no other: the
  second mutation, \<open>metafieldsSet\<close>, is not attempted.
\<close>

theorem create_errors_skip_second_mutation:
  assumes "create_data h payload = Inr q"
    and "graphqlClient q = Inr createResponse"
    and "get_path createResponse [''body'', ''data'', ''paymentCustomizationCreate''] =
           Inr createResult"
    and "get_prop createResult ''userErrors'' = Inr (JArray errors)" and "errors \<noteq> []"
  shows "fst (paymentCustomization_create h graphqlClient payload) = [q] \<and>
         query q = PaymentCustomizationCreate"
proof -
  have "try_block h graphqlClient payload =
          ([q], and_then (error_messages errors)
             (\<lambda>messages. and_then (array_join h '' '' messages)
                (\<lambda>message. Inr (Some \<lparr>status = 500,
                   body = JObject [(''error'', JString message)]\<rparr>))))"
    by (rule try_block_create_errors [where createResponse = createResponse]) (fact assms)+
  then have "fst (paymentCustomization_create h graphqlClient payload) = [q]"
    by (simp add: paymentCustomization_create_def and_then_def split: sum.splits exn.splits)
  with query_create_data [OF assms(1)] show ?thesis
    by simp
qed

text \<open>A first mutation rejected with two user errors: one call is issued.\<close>

theorem create_errors_skip_second_mutation_witness:
  "map query (fst (paymentCustomization_create table_host
      (scripted_client create_rejected metafield_stored) sample_payload)) =
     [PaymentCustomizationCreate]"
proof -
  let ?client = "scripted_client create_rejected metafield_stored"
  obtain q where q: "create_data table_host sample_payload = Inr q"
    by (simp add: create_data_def and_then_def sample_payload_def)
  have "fst (paymentCustomization_create table_host ?client sample_payload) = [q] \<and>
        query q = PaymentCustomizationCreate"
  proof (rule create_errors_skip_second_mutation
        [where createResponse = "response_of ''paymentCustomizationCreate'' create_rejected"
          and createResult = create_rejected
          and errors = "[user_error ''Function not found'', user_error ''Title is too long'']"])
    show "create_data table_host sample_payload = Inr q"
      by (fact q)
    show "?client q = Inr (response_of ''paymentCustomizationCreate'' create_rejected)"
      using query_create_data [OF q] by (simp add: scripted_client_def)
    show "get_path (response_of ''paymentCustomizationCreate'' create_rejected)
            [''body'', ''data'', ''paymentCustomizationCreate''] = Inr create_rejected"
      by (simp add: response_of_def and_then_def)
    show "get_prop create_rejected ''userErrors'' =
            Inr (JArray [user_error ''Function not found'', user_error ''Title is too long''])"
      by (simp add: create_rejected_def)
  qed simp
  then show ?thesis by simp
qed


end
